theory Spec2Isabelle
  imports Complex_Main
begin

section \<open>Points of interest: data model\<close>

text \<open>
  The ontology of \<^verbatim>\<open>src/main.cpp\<close>. A point of interest is a document root with a name,
  an owned position and a category. Positions are objects of their own: a point of
  interest and a payload each hold the address of the position they own, and the
  position objects live in a store of objects, and an address that is held is the
  address of an object of the store. Documents are identified by a store-assigned
  identifier. Latitudes and longitudes are only ever compared, and are taken as real
  numbers; the clock is read in seconds.
\<close>

type_synonym doc_id = nat
type_synonym addr = nat
type_synonym time_t = nat
type_synonym connector = string

datatype category_t = ev_charging | landmark | museum | restaurant | shopping

text \<open>The explicit numbering of the enumeration.\<close>

fun category_code :: "category_t \<Rightarrow> nat" where
  "category_code ev_charging = 0"
| "category_code landmark = 1"
| "category_code museum = 2"
| "category_code restaurant = 3"
| "category_code shopping = 4"

record position =
  latitude :: real
  longitude :: real

record poi =
  poi_id :: doc_id
  poi_name :: string
  poi_pos :: addr
  poi_category :: category_t

definition index_by_last_save_timestamp :: string where
  "index_by_last_save_timestamp = ''poi_by_lst''"

text \<open>
  The three slice functions of the index. The owned position is never null, so the
  accessors read the position object at the address the point of interest holds.
\<close>

definition get_latitude :: "position list \<Rightarrow> poi \<Rightarrow> real" where
  "get_latitude h p = latitude (h ! poi_pos p)"

definition get_longitude :: "position list \<Rightarrow> poi \<Rightarrow> real" where
  "get_longitude h p = longitude (h ! poi_pos p)"

definition get_category :: "poi \<Rightarrow> category_t" where
  "get_category p = poi_category p"

text \<open>
  Modelled from the spec: \<^verbatim>\<open>position::copy\<close> of the Foundation Ontology is not part of
  the source file. It makes a new position object with the same latitude and
  longitude; the new object gets the next free address of the object store.
\<close>

definition position_copy :: "position list \<Rightarrow> addr \<Rightarrow> position list \<times> addr" where
  "position_copy h a = (h @ [h ! a], length h)"

section \<open>Intervals and search criteria\<close>

text \<open>
  Modelled from the spec: the \<^verbatim>\<open>interval\<close> template and the \<^verbatim>\<open>area\<close> type come from the
  library and are not part of the source file. The spec makes the latitude and
  longitude intervals closed, and the category interval a degenerate one with exactly
  one member. An interval over the category enumeration compares the numeric codes.
\<close>

record 'a interval =
  lower :: 'a
  upper :: 'a

definition singleton :: "'a \<Rightarrow> 'a interval" where
  "singleton x = \<lparr>lower = x, upper = x\<rparr>"

definition contains :: "'a::ord interval \<Rightarrow> 'a \<Rightarrow> bool" where
  "contains i x = (lower i \<le> x \<and> x \<le> upper i)"

record area_and_category =
  latitude_min :: real
  latitude_max :: real
  longitude_min :: real
  longitude_max :: real
  category :: category_t

definition get_latitude_interval :: "area_and_category \<Rightarrow> real interval" where
  "get_latitude_interval q = \<lparr>lower = latitude_min q, upper = latitude_max q\<rparr>"

definition get_longitude_interval :: "area_and_category \<Rightarrow> real interval" where
  "get_longitude_interval q = \<lparr>lower = longitude_min q, upper = longitude_max q\<rparr>"

section \<open>The persistent store\<close>

text \<open>
  Modelled from the spec: the database connector, \<^verbatim>\<open>make\<close>, \<^verbatim>\<open>poi::get\<close> and \<^verbatim>\<open>unpublish\<close>
  belong to the library and are not part of the source file. A logical database holds
  the persisted documents in the order they were saved, each with its last-save
  timestamp, the next identifier it will assign, and the identifiers of the documents
  marked for removal. A document marked for removal is no longer found.
\<close>

record database =
  documents :: "(poi \<times> time_t) list"
  next_id :: doc_id
  unpublished :: "doc_id list"

definition live_documents :: "database \<Rightarrow> (poi \<times> time_t) list" where
  "live_documents db = filter (\<lambda>d. poi_id (fst d) \<notin> set (unpublished db)) (documents db)"

definition poi_get :: "database \<Rightarrow> doc_id \<Rightarrow> poi option" where
  "poi_get db i = map_option fst (find (\<lambda>d. poi_id (fst d) = i) (live_documents db))"

definition unpublish :: "database \<Rightarrow> poi \<Rightarrow> database" where
  "unpublish db p = db\<lparr>unpublished := poi_id p # unpublished db\<rparr>"

section \<open>The index\<close>

text \<open>
  Modelled from the spec: the \<^verbatim>\<open>kdcache\<close> container belongs to the library and is not part
  of the source file. Its state is the snapshot of indexed points of interest, the
  high-water mark (the last-save timestamp of the most recently ingested document) and
  the time of the last build or refresh, next to the five arguments of its constructor.
  Construction scans every document of the store. The snapshot is fresh for the
  staleness window after the last build or refresh; a search that arrives after the
  window has elapsed first scans the documents saved strictly after the high-water mark
  and adds them to the snapshot. The batch size only sets how many documents the cursor
  fetches at a time.
\<close>

record kdcache =
  kd_name :: string
  kd_connector :: connector
  kd_tag :: string
  kd_batch :: nat
  kd_staleness :: nat
  kd_entries :: "poi list"
  kd_hwm :: time_t
  kd_refreshed_at :: time_t

definition kdcache_construct ::
  "string \<Rightarrow> connector \<Rightarrow> string \<Rightarrow> nat \<Rightarrow> nat \<Rightarrow> time_t \<Rightarrow> database \<Rightarrow> kdcache" where
  "kdcache_construct n cn tag batch stale now db =
     \<lparr>kd_name = n, kd_connector = cn, kd_tag = tag, kd_batch = batch, kd_staleness = stale,
      kd_entries = map fst (live_documents db),
      kd_hwm = fold max (map snd (live_documents db)) 0,
      kd_refreshed_at = now\<rparr>"

definition kdcache_fresh :: "time_t \<Rightarrow> kdcache \<Rightarrow> bool" where
  "kdcache_fresh now c = (now < kd_refreshed_at c + kd_staleness c)"

definition kdcache_refresh :: "time_t \<Rightarrow> database \<Rightarrow> kdcache \<Rightarrow> kdcache" where
  "kdcache_refresh now db c =
     (if kdcache_fresh now c then c
      else (let new = filter (\<lambda>d. kd_hwm c < snd d) (live_documents db)
            in c\<lparr>kd_entries := kd_entries c @ map fst new,
                 kd_hwm := fold max (map snd new) (kd_hwm c),
                 kd_refreshed_at := now\<rparr>))"

definition kdcache_matches ::
  "position list \<Rightarrow> real interval \<Rightarrow> real interval \<Rightarrow> nat interval \<Rightarrow> poi \<Rightarrow> bool" where
  "kdcache_matches h li Li ti p =
     (contains li (get_latitude h p) \<and> contains Li (get_longitude h p)
      \<and> contains ti (category_code (get_category p)))"

text \<open>
  The search writes at most \<open>limit\<close> matching entries to the output and returns where it
  stopped; the model returns the entries written, together with the index after the
  refresh the search may have triggered.
\<close>

definition kdcache_search ::
  "time_t \<Rightarrow> database \<Rightarrow> position list \<Rightarrow> kdcache \<Rightarrow> nat \<Rightarrow> real interval \<Rightarrow> real interval
     \<Rightarrow> nat interval \<Rightarrow> poi list \<times> kdcache" where
  "kdcache_search now db h c limit li Li ti =
     (let c' = kdcache_refresh now db c
      in (take limit (filter (kdcache_matches h li Li ti) (kd_entries c')), c'))"

section \<open>The state of the process\<close>

text \<open>
  The object store of positions, the logical databases by name, and the function-local
  static of \<^verbatim>\<open>get_poi_index\<close>, which is empty until the first call.
\<close>

record world =
  heap :: "position list"
  stores :: "connector \<Rightarrow> database"
  poi_index_static :: "kdcache option"

definition get_poi_index :: "time_t \<Rightarrow> connector \<Rightarrow> world \<Rightarrow> kdcache \<times> world" where
  "get_poi_index now cn w =
     (case poi_index_static w of
        None \<Rightarrow>
          (let c = kdcache_construct ''poi kdcache'' cn index_by_last_save_timestamp 128 10
                     now (stores w cn)
           in (c, w\<lparr>poi_index_static := Some c\<rparr>))
      | Some c \<Rightarrow> (c, w))"

section \<open>Service payloads\<close>

text \<open>
  A payload owns its position, which a client may have left out: the position of a
  payload is an address or null.
\<close>

record poi_data_payload =
  pld_name :: string
  pld_pos :: "addr option"

record poi_create_payload = poi_data_payload +
  pld_category :: category_t

record poi_search_data_payload = poi_data_payload +
  pld_id :: doc_id

record pois_search_data_payload =
  pois_data :: "poi_search_data_payload list"

text \<open>The constructors from a point of interest: the position is copied.\<close>

definition make_poi_data_payload :: "position list \<Rightarrow> poi \<Rightarrow> position list \<times> poi_data_payload" where
  "make_poi_data_payload h p =
     (let (h', a) = position_copy h (poi_pos p)
      in (h', \<lparr>pld_name = poi_name p, pld_pos = Some a\<rparr>))"

definition make_poi_search_data_payload ::
  "position list \<Rightarrow> poi \<Rightarrow> position list \<times> poi_search_data_payload" where
  "make_poi_search_data_payload h p =
     (let (h', b) = make_poi_data_payload h p
      in (h', poi_data_payload.extend b (poi_search_data_payload.fields (poi_id p))))"

definition make_pois_search_data_payload :: pois_search_data_payload where
  "make_pois_search_data_payload = \<lparr>pois_data = []\<rparr>"

definition push_data ::
  "pois_search_data_payload \<Rightarrow> poi_search_data_payload \<Rightarrow> pois_search_data_payload" where
  "push_data pdp pd = pdp\<lparr>pois_data := pois_data pdp @ [pd]\<rparr>"

section \<open>Services\<close>

datatype error = position_is_missing | document_does_not_exist

definition poi_create :: "time_t \<Rightarrow> poi_create_payload \<Rightarrow> world \<Rightarrow> world \<times> (error + doc_id)" where
  "poi_create now pcp w =
     (let c = ''hx2a''
      in case pld_pos pcp of
           None \<Rightarrow> (w, Inl position_is_missing)
         | Some pcppos \<Rightarrow>
             (let (h', a) = position_copy (heap w) pcppos;
                  db = stores w c;
                  point = \<lparr>poi_id = next_id db, poi_name = pld_name pcp, poi_pos = a,
                           poi_category = pld_category pcp\<rparr>;
                  db' = db\<lparr>documents := documents db @ [(point, now)],
                           next_id := Suc (next_id db)\<rparr>
              in (w\<lparr>heap := h', stores := (stores w)(c := db')\<rparr>, Inr (poi_id point))))"

definition poi_delete :: "doc_id \<Rightarrow> world \<Rightarrow> world \<times> (error + unit)" where
  "poi_delete q w =
     (let c = ''hx2a''
      in case poi_get (stores w c) q of
           None \<Rightarrow> (w, Inl document_does_not_exist)
         | Some point \<Rightarrow>
             (w\<lparr>stores := (stores w)(c := unpublish (stores w c) point)\<rparr>, Inr ()))"

definition search_limit :: nat where
  "search_limit = 100 + 1"

text \<open>The loop over the search results, which builds one summary for each hit.\<close>

fun push_all ::
  "poi list \<Rightarrow> position list \<Rightarrow> pois_search_data_payload
     \<Rightarrow> position list \<times> pois_search_data_payload" where
  "push_all [] h pdp = (h, pdp)"
| "push_all (p # ps) h pdp =
     (let (h', pd) = make_poi_search_data_payload h p
      in push_all ps h' (push_data pdp pd))"

text \<open>
  The part of the search service up to the call of the index: the hits the index wrote
  to the array, and the state with the index as the search left it.
\<close>

definition poi_search_hits :: "time_t \<Rightarrow> area_and_category \<Rightarrow> world \<Rightarrow> poi list \<times> world" where
  "poi_search_hits now query w =
     (let c = ''hx2a'';
          (pi, w1) = get_poi_index now c w;
          li = get_latitude_interval query;
          Li = get_longitude_interval query;
          ti = singleton (category_code (category query));
          (hits, pi') = kdcache_search now (stores w1 (kd_connector pi)) (heap w1) pi
                          search_limit li Li ti
      in (hits, w1\<lparr>poi_index_static := Some pi'\<rparr>))"

text \<open>
  The search service. The zoom-in reply is the null payload, \<open>None\<close>; a list of
  summaries, empty or not, is \<open>Some\<close> payload.
\<close>

definition poi_search ::
  "time_t \<Rightarrow> area_and_category \<Rightarrow> world \<Rightarrow> world \<times> pois_search_data_payload option" where
  "poi_search now query w =
     (let (hits, w2) = poi_search_hits now query w
      in if length hits = search_limit then (w2, None)
         else (let (h', pdp) = push_all hits (heap w2) make_pois_search_data_payload
               in (w2\<lparr>heap := h'\<rparr>, Some pdp)))"

section \<open>Notions used to state the properties\<close>

text \<open>
  The snapshot that serves a search issued at time \<open>now\<close>: the index as
  \<^verbatim>\<open>get_poi_index\<close> returns it, after the refresh the search may trigger.
\<close>

definition served_index :: "time_t \<Rightarrow> world \<Rightarrow> kdcache" where
  "served_index now w =
     (let (pi, w1) = get_poi_index now ''hx2a'' w
      in kdcache_refresh now (stores w1 (kd_connector pi)) pi)"

text \<open>A point of interest matches the criteria of a query in all three dimensions.\<close>

definition query_matches :: "position list \<Rightarrow> area_and_category \<Rightarrow> poi \<Rightarrow> bool" where
  "query_matches h query p =
     kdcache_matches h (get_latitude_interval query) (get_longitude_interval query)
       (singleton (category_code (category query))) p"

definition matching_pois :: "time_t \<Rightarrow> area_and_category \<Rightarrow> world \<Rightarrow> poi list" where
  "matching_pois now query w =
     filter (query_matches (heap w) query) (kd_entries (served_index now w))"

text \<open>The summary of a point of interest whose position was copied to address \<open>a\<close>.\<close>

definition summary :: "addr \<Rightarrow> poi \<Rightarrow> poi_search_data_payload" where
  "summary a p = \<lparr>pld_name = poi_name p, pld_pos = Some a, pld_id = poi_id p\<rparr>"

text \<open>
  Modelled from the spec: the search operation of the index as section 4.2 words it,
  which the library does not offer in this form. It takes the criteria and a limit, and
  returns up to \<open>limit\<close> matching tuples together with a flag that tells whether strictly
  more than \<open>limit\<close> would have matched; it collects up to \<open>limit + 1\<close> entries to tell the
  two apart.
\<close>

definition index_search ::
  "time_t \<Rightarrow> database \<Rightarrow> position list \<Rightarrow> kdcache \<Rightarrow> area_and_category \<Rightarrow> nat
     \<Rightarrow> (poi list \<times> bool) \<times> kdcache" where
  "index_search now db h c criteria limit =
     (let (collected, c') =
            kdcache_search now db h c (limit + 1) (get_latitude_interval criteria)
              (get_longitude_interval criteria) (singleton (category_code (category criteria)))
      in ((take limit collected, limit < length collected), c'))"

text \<open>
  Modelled from the spec: the query policy as section 4.3 words it, for a display cap
  \<open>D\<close>. It acquires the index, calls the search of the index with the limit \<open>D\<close>, returns
  the zoom-in outcome when the flag is set, and otherwise returns the matches, each as a
  summary with a copy of the position.
\<close>

definition display_cap :: nat where
  "display_cap = 100"

definition query_policy ::
  "nat \<Rightarrow> time_t \<Rightarrow> area_and_category \<Rightarrow> world \<Rightarrow> world \<times> pois_search_data_payload option" where
  "query_policy D now criteria w =
     (let (pi, w1) = get_poi_index now ''hx2a'' w;
          ((matches, truncated), pi') =
             index_search now (stores w1 (kd_connector pi)) (heap w1) pi criteria D;
          w2 = w1\<lparr>poi_index_static := Some pi'\<rparr>
      in if truncated then (w2, None)
         else (let (h', pdp) = push_all matches (heap w2) make_pois_search_data_payload
               in (w2\<lparr>heap := h'\<rparr>, Some pdp)))"

text \<open>The reply carries a summary with the identifier \<open>i\<close>.\<close>

definition returned :: "doc_id \<Rightarrow> pois_search_data_payload option \<Rightarrow> bool" where
  "returned i r = (case r of None \<Rightarrow> False | Some pdp \<Rightarrow> i \<in> set (map pld_id (pois_data pdp)))"

text \<open>
  A run of calls of \<^verbatim>\<open>get_poi_index\<close>, each at some time and with some connector: the
  instances the calls return, and the number of calls that run the constructor of the
  static (those that find it empty).
\<close>

fun acquire_all :: "(time_t \<times> connector) list \<Rightarrow> world \<Rightarrow> kdcache list \<times> world" where
  "acquire_all [] w = ([], w)"
| "acquire_all ((now, cn) # cs) w =
     (let (c, w1) = get_poi_index now cn w;
          (rs, w2) = acquire_all cs w1
      in (c # rs, w2))"

fun constructions :: "(time_t \<times> connector) list \<Rightarrow> world \<Rightarrow> nat" where
  "constructions [] w = 0"
| "constructions ((now, cn) # cs) w =
     (if poi_index_static w = None then 1 else 0)
       + constructions cs (snd (get_poi_index now cn w))"

text \<open>
  The index in place was built by \<^verbatim>\<open>get_poi_index\<close>, its high-water mark is not later
  than its last build or refresh, and the identifiers in the snapshot and in the store
  were all assigned before the next identifier of the store.
\<close>

definition index_in_step :: "world \<Rightarrow> kdcache \<Rightarrow> bool" where
  "index_in_step w idx \<longleftrightarrow>
     poi_index_static w = Some idx
     \<and> kd_connector idx = ''hx2a'' \<and> kd_staleness idx = 10
     \<and> kd_hwm idx \<le> kd_refreshed_at idx
     \<and> (\<forall>p\<in>set (kd_entries idx). poi_id p < next_id (stores w ''hx2a''))
     \<and> (\<forall>d\<in>set (documents (stores w ''hx2a'')). poi_id (fst d) < next_id (stores w ''hx2a''))
     \<and> (\<forall>i\<in>set (unpublished (stores w ''hx2a'')). i < next_id (stores w ''hx2a''))"

section \<open>Sample data\<close>

text \<open>
  A database of \<open>n\<close> points of interest, all at the same coordinates: the first \<open>m\<close>
  are museums, the others restaurants. Every one of them owns a position object.
\<close>

definition sample_position :: position where
  "sample_position = \<lparr>latitude = 48, longitude = 2\<rparr>"

definition sample_poi :: "category_t \<Rightarrow> nat \<Rightarrow> poi" where
  "sample_poi c i = \<lparr>poi_id = i, poi_name = ''poi'', poi_pos = i, poi_category = c\<rparr>"

definition sample_db :: "nat \<Rightarrow> nat \<Rightarrow> database" where
  "sample_db m n =
     \<lparr>documents = map (\<lambda>i. (sample_poi museum i, 0)) [0..<m]
                   @ map (\<lambda>i. (sample_poi restaurant i, 0)) [m..<n],
      next_id = n, unpublished = []\<rparr>"

definition sample_world :: "nat \<Rightarrow> nat \<Rightarrow> world" where
  "sample_world m n =
     \<lparr>heap = replicate n sample_position, stores = (\<lambda>cn. sample_db m n),
      poi_index_static = None\<rparr>"

definition sample_query :: area_and_category where
  "sample_query = \<lparr>latitude_min = 40, latitude_max = 50, longitude_min = 0,
                    longitude_max = 10, category = museum\<rparr>"

text \<open>
  A world with two logical databases: \<open>hx2a\<close> holds three museums and two restaurants,
  every other database is empty.
\<close>

definition two_store_world :: world where
  "two_store_world =
     \<lparr>heap = replicate 5 sample_position,
      stores = (\<lambda>cn. if cn = ''hx2a'' then sample_db 3 5
                      else \<lparr>documents = [], next_id = 0, unpublished = []\<rparr>),
      poi_index_static = None\<rparr>"

text \<open>A creation payload, with or without a position.\<close>

definition sample_payload :: "addr option \<Rightarrow> poi_create_payload" where
  "sample_payload a = \<lparr>pld_name = ''poi'', pld_pos = a, pld_category = museum\<rparr>"

text \<open>The sample world once the index has been built, at time 0.\<close>

definition sample_index :: "nat \<Rightarrow> nat \<Rightarrow> kdcache" where
  "sample_index m n =
     kdcache_construct ''poi kdcache'' ''hx2a'' index_by_last_save_timestamp 128 10 0
       (sample_db m n)"

definition built_world :: "nat \<Rightarrow> nat \<Rightarrow> world" where
  "built_world m n = snd (get_poi_index 0 ''hx2a'' (sample_world m n))"

section \<open>The search service, step by step\<close>

lemma query_matches_fun:
  "query_matches h query =
     kdcache_matches h (get_latitude_interval query) (get_longitude_interval query)
       (singleton (category_code (category query)))"
  by (rule ext) (simp add: query_matches_def)

lemma get_poi_index_heap: "heap (snd (get_poi_index now cn w)) = heap w"
  by (simp add: get_poi_index_def Let_def split: option.splits)

lemma get_poi_index_stores: "stores (snd (get_poi_index now cn w)) = stores w"
  by (simp add: get_poi_index_def Let_def split: option.splits)

lemma served_index_first_use:
  "poi_index_static w = None \<Longrightarrow>
   served_index now w =
     kdcache_construct ''poi kdcache'' ''hx2a'' index_by_last_save_timestamp 128 10 now
       (stores w ''hx2a'')"
  by (simp add: served_index_def get_poi_index_def Let_def kdcache_refresh_def
      kdcache_fresh_def kdcache_construct_def)

lemma served_index_built:
  "poi_index_static w = Some c \<Longrightarrow>
   served_index now w = kdcache_refresh now (stores w (kd_connector c)) c"
  by (simp add: served_index_def get_poi_index_def)

lemma poi_search_hits_eq:
  "poi_search_hits now query w =
     (take search_limit (matching_pois now query w),
      w\<lparr>poi_index_static := Some (served_index now w)\<rparr>)"
  by (simp add: poi_search_hits_def matching_pois_def served_index_def query_matches_fun
      kdcache_search_def get_poi_index_def Let_def split: option.splits prod.splits)

lemma make_poi_search_data_payload_eq:
  "make_poi_search_data_payload h p = (h @ [h ! poi_pos p], summary (length h) p)"
  by (simp add: make_poi_search_data_payload_def make_poi_data_payload_def position_copy_def
      summary_def poi_data_payload.extend_def poi_search_data_payload.fields_def)

lemma push_all_length:
  "length (pois_data (snd (push_all ps h pdp))) = length (pois_data pdp) + length ps"
  by (induction ps arbitrary: h pdp)
     (simp_all add: make_poi_search_data_payload_eq push_data_def)

lemma push_all_ids:
  "map pld_id (pois_data (snd (push_all ps h pdp))) = map pld_id (pois_data pdp) @ map poi_id ps"
  by (induction ps arbitrary: h pdp)
     (simp_all add: make_poi_search_data_payload_eq push_data_def summary_def)

lemma push_all_names:
  "map pld_name (pois_data (snd (push_all ps h pdp))) =
     map pld_name (pois_data pdp) @ map poi_name ps"
  by (induction ps arbitrary: h pdp)
     (simp_all add: make_poi_search_data_payload_eq push_data_def summary_def)

lemma push_all_pos:
  "map pld_pos (pois_data (snd (push_all ps h pdp))) =
     map pld_pos (pois_data pdp) @ map Some [length h ..< length h + length ps]"
proof (induction ps arbitrary: h pdp)
  case Nil
  then show ?case by simp
next
  case (Cons p ps)
  have "[length h ..< length h + length (p # ps)] =
          length h # [Suc (length h) ..< Suc (length h) + length ps]"
    by (simp add: upt_conv_Cons del: upt_Suc)
  then show ?case
    by (simp add: make_poi_search_data_payload_eq push_data_def summary_def Cons.IH del: upt_Suc)
qed

lemma push_all_heap:
  "\<forall>p\<in>set ps. poi_pos p < length h \<Longrightarrow>
   fst (push_all ps h pdp) = h @ map (\<lambda>p. h ! poi_pos p) ps"
proof (induction ps arbitrary: h pdp)
  case Nil
  then show ?case by simp
next
  case (Cons p ps)
  have "\<forall>q\<in>set ps. poi_pos q < length (h @ [h ! poi_pos p])"
    using Cons.prems by auto
  moreover have "map (\<lambda>q. (h @ [h ! poi_pos p]) ! poi_pos q) ps = map (\<lambda>q. h ! poi_pos q) ps"
    using Cons.prems by (auto simp: nth_append)
  ultimately show ?case
    by (simp add: make_poi_search_data_payload_eq Cons.IH)
qed

text \<open>The reply of the search service in terms of the matching entries of the snapshot.\<close>

lemma poi_search_reply:
  "snd (poi_search now query w) =
     (if search_limit \<le> length (matching_pois now query w) then None
      else Some (snd (push_all (matching_pois now query w) (heap w)
                        make_pois_search_data_payload)))"
  by (simp add: poi_search_def poi_search_hits_eq min_def split: prod.splits)

lemma query_policy_eq:
  "query_policy D now query w =
     (if D < length (matching_pois now query w)
      then (w\<lparr>poi_index_static := Some (served_index now w)\<rparr>, None)
      else (w\<lparr>poi_index_static := Some (served_index now w),
              heap := fst (push_all (matching_pois now query w) (heap w)
                             make_pois_search_data_payload)\<rparr>,
            Some (snd (push_all (matching_pois now query w) (heap w)
                         make_pois_search_data_payload))))"
proof -
  let ?m = "matching_pois now query w"
  have flag: "D < length (take (D + 1) ?m) \<longleftrightarrow> D < length ?m"
    by auto
  have all: "take D (take (D + 1) ?m) = ?m" if "\<not> D < length ?m"
    using that by simp
  show ?thesis
    using all
    by (simp add: query_policy_def index_search_def kdcache_search_def get_poi_index_def
        matching_pois_def served_index_def query_matches_fun Let_def min_def
        split: option.splits prod.splits)
qed

lemma push_all_data:
  "pois_data (snd (push_all ps h pdp)) =
     pois_data pdp @ map (\<lambda>(a, p). summary a p) (zip [length h ..< length h + length ps] ps)"
proof (induction ps arbitrary: h pdp)
  case Nil
  then show ?case by simp
next
  case (Cons p ps)
  have "[length h ..< length h + length (p # ps)] =
          length h # [Suc (length h) ..< Suc (length h) + length ps]"
    by (simp add: upt_conv_Cons del: upt_Suc)
  then show ?case
    by (simp add: make_poi_search_data_payload_eq push_data_def Cons.IH del: upt_Suc)
qed

lemma category_code_inj: "category_code a = category_code b \<longleftrightarrow> a = b"
  by (cases a; cases b) simp_all

lemma contains_singleton: "contains (singleton (x::nat)) y \<longleftrightarrow> y = x"
  by (auto simp: contains_def singleton_def)

lemma query_matches_category: "query_matches h query p \<Longrightarrow> poi_category p = category query"
  by (simp add: query_matches_def kdcache_matches_def contains_singleton get_category_def
      category_code_inj)

lemma returned_iff:
  "returned i (snd (poi_search now query w)) \<longleftrightarrow>
     length (matching_pois now query w) \<le> 100 \<and> i \<in> poi_id ` set (matching_pois now query w)"
  by (auto simp: returned_def poi_search_reply search_limit_def push_all_ids
      make_pois_search_data_payload_def)

lemma poi_search_world:
  "fst (poi_search now query w) =
     (if search_limit \<le> length (matching_pois now query w)
      then w\<lparr>poi_index_static := Some (served_index now w)\<rparr>
      else w\<lparr>poi_index_static := Some (served_index now w),
             heap := fst (push_all (matching_pois now query w) (heap w)
                            make_pois_search_data_payload)\<rparr>)"
  by (simp add: poi_search_def poi_search_hits_eq min_def split: prod.splits)

subsection \<open>The sample data\<close>

lemma sample_served_entries:
  "kd_entries (served_index now (sample_world m n)) =
     map (sample_poi museum) [0..<m] @ map (sample_poi restaurant) [m..<n]"
proof -
  have "poi_index_static (sample_world m n) = None"
    by (simp add: sample_world_def)
  then show ?thesis
    by (simp add: served_index_first_use kdcache_construct_def sample_world_def sample_db_def
        live_documents_def comp_def)
qed

lemma sample_query_matches:
  "i < n \<Longrightarrow>
   query_matches (replicate n sample_position) sample_query (sample_poi c i) = (c = museum)"
  by (cases c)
     (simp_all add: query_matches_def kdcache_matches_def contains_def get_latitude_def
       get_longitude_def get_category_def get_latitude_interval_def get_longitude_interval_def
       singleton_def sample_query_def sample_poi_def sample_position_def)

lemma sample_matching:
  assumes "m \<le> n"
  shows "matching_pois now sample_query (sample_world m n) = map (sample_poi museum) [0..<m]"
proof -
  let ?P = "query_matches (replicate n sample_position) sample_query"
  have a: "filter ?P (map (sample_poi museum) [0..<m]) = map (sample_poi museum) [0..<m]"
    using assms by (simp add: filter_id_conv sample_query_matches)
  have b: "filter ?P (map (sample_poi restaurant) [m..<n]) = []"
    by (simp add: filter_empty_conv sample_query_matches)
  have "heap (sample_world m n) = replicate n sample_position"
    by (simp add: sample_world_def)
  then show ?thesis
    by (simp add: matching_pois_def sample_served_entries a b)
qed

lemma sample_ids:
  "m \<le> n \<Longrightarrow> map poi_id (kd_entries (served_index now (sample_world m n))) = [0..<n]"
proof -
  assume "m \<le> n"
  then have "[0..<m] @ [m..<n] = [0..<n]"
    by (metis le_add_diff_inverse upt_add_eq_append zero_le)
  moreover have "map poi_id (map (sample_poi c) xs) = xs" for c xs
    by (induction xs) (simp_all add: sample_poi_def)
  ultimately show ?thesis
    by (simp add: sample_served_entries del: map_map)
qed

lemma sample_coordinates:
  "i < n \<Longrightarrow> get_latitude (heap (sample_world m n)) (sample_poi c i) = 48
     \<and> get_longitude (heap (sample_world m n)) (sample_poi c i) = 2"
  by (simp add: get_latitude_def get_longitude_def sample_world_def sample_poi_def
      sample_position_def)

subsection \<open>The stores\<close>

lemma find_holds: "find P xs = Some x \<Longrightarrow> P x"
  by (induction xs) (auto split: if_splits)

lemma poi_get_id: "poi_get db i = Some p \<Longrightarrow> poi_id p = i"
  by (auto simp: poi_get_def dest: find_holds)

lemma acquire_all_built:
  "poi_index_static w = Some c \<Longrightarrow>
   acquire_all cs w = (replicate (length cs) c, w) \<and> constructions cs w = 0"
  by (induction cs) (auto simp: get_poi_index_def)

lemma find_app:
  "find P (xs @ ys) = (case find P xs of None \<Rightarrow> find P ys | Some x \<Rightarrow> Some x)"
  by (induction xs) simp_all

lemma poi_create_success:
  assumes "poi_create tc pcp w = (w1, Inr i)"
  obtains a where "pld_pos pcp = Some a"
    and "i = next_id (stores w ''hx2a'')"
    and "heap w1 = heap w @ [heap w ! a]"
    and "poi_index_static w1 = poi_index_static w"
    and "unpublished (stores w1 ''hx2a'') = unpublished (stores w ''hx2a'')"
    and "documents (stores w1 ''hx2a'') = documents (stores w ''hx2a'')
           @ [(\<lparr>poi_id = i, poi_name = pld_name pcp, poi_pos = length (heap w),
                poi_category = pld_category pcp\<rparr>, tc)]"
  using assms
  by (cases "pld_pos pcp") (auto simp: poi_create_def position_copy_def Let_def)

subsection \<open>The sample world with its index built\<close>

lemma fold_max_zero: "\<forall>x\<in>set xs. x = (0::nat) \<Longrightarrow> fold max xs 0 = 0"
  by (induction xs) simp_all

lemma sample_live: "live_documents (sample_db m n) = documents (sample_db m n)"
  by (simp add: live_documents_def sample_db_def)

lemma sample_index_fields:
  "kd_connector (sample_index m n) = ''hx2a''"
  "kd_staleness (sample_index m n) = 10"
  "kd_refreshed_at (sample_index m n) = 0"
  "kd_hwm (sample_index m n) = 0"
  "kd_entries (sample_index m n)
     = map (sample_poi museum) [0..<m] @ map (sample_poi restaurant) [m..<n]"
proof -
  have "fold max (map snd (documents (sample_db m n))) 0 = 0"
    by (rule fold_max_zero) (auto simp: sample_db_def)
  then show "kd_hwm (sample_index m n) = 0"
    by (simp add: sample_index_def kdcache_construct_def sample_live)
  have "map fst (documents (sample_db m n))
          = map (sample_poi museum) [0..<m] @ map (sample_poi restaurant) [m..<n]"
    by (simp add: sample_db_def comp_def)
  then show "kd_entries (sample_index m n)
     = map (sample_poi museum) [0..<m] @ map (sample_poi restaurant) [m..<n]"
    by (simp add: sample_index_def kdcache_construct_def sample_live)
qed (simp_all add: sample_index_def kdcache_construct_def)

lemma built_world_fields:
  "heap (built_world m n) = replicate n sample_position"
  "stores (built_world m n) = (\<lambda>cn. sample_db m n)"
  "poi_index_static (built_world m n) = Some (sample_index m n)"
  by (simp_all add: built_world_def get_poi_index_def sample_world_def sample_index_def Let_def)

lemma built_world_in_step: "m \<le> n \<Longrightarrow> index_in_step (built_world m n) (sample_index m n)"
  by (auto simp: index_in_step_def built_world_fields sample_index_fields sample_db_def
      sample_poi_def)

lemma sample_create:
  assumes "0 < n"
  shows "poi_create tc (sample_payload (Some 0)) (built_world m n)
    = (built_world m n
        \<lparr>heap := replicate (Suc n) sample_position,
         stores := (\<lambda>cn. sample_db m n)
           (''hx2a'' := (sample_db m n)
              \<lparr>documents := documents (sample_db m n) @ [(sample_poi museum n, tc)],
               next_id := Suc n\<rparr>)\<rparr>,
       Inr n)"
proof -
  have "replicate n sample_position @ [replicate n sample_position ! 0]
          = replicate (Suc n) sample_position"
    using assms by (simp add: replicate_append_same)
  moreover have "next_id (sample_db m n) = n"
    by (simp add: sample_db_def)
  ultimately show ?thesis
    by (simp add: poi_create_def position_copy_def Let_def built_world_fields sample_payload_def
        sample_poi_def)
qed

lemma sample_created_fields:
  assumes "0 < n"
  shows "heap (fst (poi_create tc (sample_payload (Some 0)) (built_world m n)))
           = replicate (Suc n) sample_position"
    and "poi_index_static (fst (poi_create tc (sample_payload (Some 0)) (built_world m n)))
           = Some (sample_index m n)"
    and "live_documents (stores (fst (poi_create tc (sample_payload (Some 0)) (built_world m n)))
           ''hx2a'')
           = documents (sample_db m n) @ [(sample_poi museum n, tc)]"
    and "snd (poi_create tc (sample_payload (Some 0)) (built_world m n)) = Inr n"
  by (simp_all add: sample_create [OF assms] built_world_fields live_documents_def sample_db_def)

lemma sample_created_served:
  assumes "0 < n" "0 < tc"
  shows "kd_entries (served_index ts
           (fst (poi_create tc (sample_payload (Some 0)) (built_world n n))))
         = (if ts < 10 then map (sample_poi museum) [0..<n]
            else map (sample_poi museum) [0..<Suc n])"
proof -
  let ?w1 = "fst (poi_create tc (sample_payload (Some 0)) (built_world n n))"
  have "filter (\<lambda>d. 0 < snd d) (documents (sample_db n n)) = []"
    by (simp add: sample_db_def filter_empty_conv)
  then have "filter (\<lambda>d. 0 < snd d) (live_documents (stores ?w1 ''hx2a''))
               = [(sample_poi museum n, tc)]"
    using assms(2) by (simp add: sample_created_fields [OF assms(1)])
  then show ?thesis
    by (simp add: served_index_built [OF sample_created_fields(2) [OF assms(1)]]
        kdcache_refresh_def kdcache_fresh_def sample_index_fields Let_def)
qed

lemma sample_created_matching:
  assumes "0 < n" "0 < tc"
  shows "matching_pois ts sample_query
           (fst (poi_create tc (sample_payload (Some 0)) (built_world n n)))
         = (if ts < 10 then map (sample_poi museum) [0..<n]
            else map (sample_poi museum) [0..<Suc n])"
proof -
  let ?P = "query_matches (replicate (Suc n) sample_position) sample_query"
  have "filter ?P (map (sample_poi museum) [0..<k]) = map (sample_poi museum) [0..<k]"
    if "k \<le> Suc n" for k
    using that by (simp add: filter_id_conv sample_query_matches del: replicate_Suc)
  then show ?thesis
    by (simp add: matching_pois_def sample_created_served [OF assms]
        sample_created_fields(1) [OF assms(1)] del: upt_Suc replicate_Suc)
qed

lemma sample_created_get:
  assumes "0 < n"
  shows "poi_get (stores (fst (poi_create tc (sample_payload (Some 0)) (built_world n n)))
           ''hx2a'') n = Some (sample_poi museum n)"
proof -
  have "find (\<lambda>d. poi_id (fst d) = n) (documents (sample_db n n)) = None"
    by (auto simp: find_None_iff sample_db_def sample_poi_def)
  then show ?thesis
    by (simp add: poi_get_def sample_created_fields(3) [OF assms] find_app sample_poi_def)
qed

section \<open>The zoom-in contract of the search service\<close>

text \<open>
  C1. When the criteria of a search match strictly more than 100 points of interest
  of the snapshot, the service replies with the zoom-in outcome (the null payload): not
  a list of 100 summaries, not an empty list. When nothing matches, the reply is the
  payload with the empty list, and the two replies are different.
\<close>

theorem search_overflow_signal:
  "(100 < length (matching_pois now query w) \<longrightarrow> snd (poi_search now query w) = None)
   \<and> (matching_pois now query w = [] \<longrightarrow>
        snd (poi_search now query w) = Some \<lparr>pois_data = []\<rparr>)
   \<and> (None :: pois_search_data_payload option) \<noteq> Some \<lparr>pois_data = []\<rparr>"
  by (simp add: poi_search_reply search_limit_def make_pois_search_data_payload_def)

theorem search_overflow_signal_witness:
  "100 < length (matching_pois 0 sample_query (sample_world 101 101))
   \<and> snd (poi_search 0 sample_query (sample_world 101 101)) = None
   \<and> matching_pois 0 sample_query (sample_world 0 0) = []
   \<and> snd (poi_search 0 sample_query (sample_world 0 0)) = Some \<lparr>pois_data = []\<rparr>"
  using search_overflow_signal [of 0 sample_query "sample_world 101 101"]
    search_overflow_signal [of 0 sample_query "sample_world 0 0"]
  by (simp add: sample_matching)

text \<open>
  C2. The search service is the query policy with the display cap \<open>D = 100\<close>: the
  policy that calls the search of the index with \<open>limit = D\<close>, which collects up to
  \<open>D + 1 = 101\<close> entries and sets its flag when strictly more than \<open>D\<close> entries match. The
  service and the policy give the same reply and leave the same state. The 101 entries
  that the search of the index collects at the limit \<open>D\<close> are the 101 slots the service
  hands to the library search.
\<close>

theorem search_policy_at_cap:
  "display_cap = 100
   \<and> search_limit = display_cap + 1
   \<and> poi_search now query w = query_policy display_cap now query w
   \<and> (snd (fst (index_search now db h c query display_cap))
        \<longleftrightarrow> 100 < length (filter (query_matches h query) (kd_entries (kdcache_refresh now db c))))"
proof -
  let ?m = "matching_pois now query w"
  have over: "search_limit \<le> length ?m \<longleftrightarrow> 100 < length ?m"
    by (auto simp: search_limit_def)
  have "fst (poi_search now query w) = fst (query_policy 100 now query w)"
    by (simp add: poi_search_world query_policy_eq over)
  moreover have "snd (poi_search now query w) = snd (query_policy 100 now query w)"
    by (simp add: poi_search_reply query_policy_eq over)
  ultimately have same: "poi_search now query w = query_policy 100 now query w"
    by (rule prod_eqI)
  have flag: "snd (fst (index_search now db h c query 100))
        \<longleftrightarrow> 100 < length (filter (query_matches h query) (kd_entries (kdcache_refresh now db c)))"
    by (auto simp: index_search_def kdcache_search_def query_matches_fun Let_def)
  from same flag show ?thesis
    by (simp add: display_cap_def search_limit_def)
qed

theorem search_policy_at_cap_witness:
  "poi_search 0 sample_query (sample_world 101 101)
     = query_policy display_cap 0 sample_query (sample_world 101 101)
   \<and> snd (query_policy display_cap 0 sample_query (sample_world 101 101)) = None
   \<and> poi_search 0 sample_query (sample_world 100 100)
     = query_policy display_cap 0 sample_query (sample_world 100 100)
   \<and> snd (query_policy display_cap 0 sample_query (sample_world 100 100)) \<noteq> None"
proof -
  have a: "poi_search 0 sample_query (sample_world 101 101)
             = query_policy display_cap 0 sample_query (sample_world 101 101)"
    using search_policy_at_cap [of 0 sample_query "sample_world 101 101"] by blast
  have b: "poi_search 0 sample_query (sample_world 100 100)
             = query_policy display_cap 0 sample_query (sample_world 100 100)"
    using search_policy_at_cap [of 0 sample_query "sample_world 100 100"] by blast
  have "snd (poi_search 0 sample_query (sample_world 101 101)) = None"
    by (simp add: poi_search_reply sample_matching search_limit_def)
  moreover have "snd (poi_search 0 sample_query (sample_world 100 100)) \<noteq> None"
    by (simp add: poi_search_reply sample_matching search_limit_def)
  ultimately show ?thesis
    using a b by simp
qed

text \<open>
  C3. When the criteria of a search match exactly 100 points of interest of the
  snapshot, the service replies with a list and no zoom-in outcome. The list has 100
  summaries, one for each matching point of interest and in their order: each carries
  the name and the identifier of its point of interest and owns a new position object.
  When the positions of the snapshot are objects of the store, the position of each
  summary holds the coordinates of its point of interest.
\<close>

theorem search_exactly_cap:
  assumes "length (matching_pois now query w) = 100"
  shows "\<exists>pdp. snd (poi_search now query w) = Some pdp
           \<and> length (pois_data pdp) = 100
           \<and> pois_data pdp
               = map (\<lambda>(a, p). \<lparr>pld_name = poi_name p, pld_pos = Some a, pld_id = poi_id p\<rparr>)
                   (zip [length (heap w) ..< length (heap w) + 100] (matching_pois now query w))
           \<and> map pld_id (pois_data pdp) = map poi_id (matching_pois now query w)
           \<and> map pld_name (pois_data pdp) = map poi_name (matching_pois now query w)
           \<and> ((\<forall>p\<in>set (kd_entries (served_index now w)). poi_pos p < length (heap w)) \<longrightarrow>
                (\<forall>i<100. heap (fst (poi_search now query w)) ! (length (heap w) + i)
                            = heap w ! poi_pos (matching_pois now query w ! i)))"
proof -
  let ?m = "matching_pois now query w"
  let ?r = "push_all ?m (heap w) make_pois_search_data_payload"
  have small: "\<not> search_limit \<le> length ?m"
    using assms by (simp add: search_limit_def)
  have reply: "snd (poi_search now query w) = Some (snd ?r)"
    using small by (simp add: poi_search_reply)
  have len: "length (pois_data (snd ?r)) = 100"
    using assms by (simp add: push_all_length make_pois_search_data_payload_def)
  have data: "pois_data (snd ?r)
               = map (\<lambda>(a, p). \<lparr>pld_name = poi_name p, pld_pos = Some a, pld_id = poi_id p\<rparr>)
                   (zip [length (heap w) ..< length (heap w) + 100] ?m)"
    using assms by (simp add: push_all_data make_pois_search_data_payload_def summary_def)
  have ids: "map pld_id (pois_data (snd ?r)) = map poi_id ?m"
    by (simp add: push_all_ids make_pois_search_data_payload_def)
  have names: "map pld_name (pois_data (snd ?r)) = map poi_name ?m"
    by (simp add: push_all_names make_pois_search_data_payload_def)
  have copies: "heap (fst (poi_search now query w)) ! (length (heap w) + i)
                  = heap w ! poi_pos (?m ! i)"
    if wf: "\<forall>p\<in>set (kd_entries (served_index now w)). poi_pos p < length (heap w)"
      and i: "i < 100" for i
  proof -
    have "\<forall>p\<in>set ?m. poi_pos p < length (heap w)"
      using wf by (simp add: matching_pois_def)
    then have "heap (fst (poi_search now query w)) = heap w @ map (\<lambda>p. heap w ! poi_pos p) ?m"
      using small by (simp add: poi_search_world push_all_heap)
    with i assms show ?thesis
      by (simp add: nth_append)
  qed
  from reply len data ids names copies show ?thesis
    by blast
qed

theorem search_exactly_cap_witness:
  "\<exists>pdp. snd (poi_search 0 sample_query (sample_world 100 103)) = Some pdp
      \<and> length (pois_data pdp) = 100
      \<and> pois_data pdp ! 0 = \<lparr>pld_name = ''poi'', pld_pos = Some 103, pld_id = 0\<rparr>
      \<and> heap (fst (poi_search 0 sample_query (sample_world 100 103))) ! 103 = sample_position"
proof -
  let ?w = "sample_world 100 103"
  have m: "matching_pois 0 sample_query ?w = map (sample_poi museum) [0..<100]"
    by (simp add: sample_matching)
  have h: "heap ?w = replicate 103 sample_position"
    by (simp add: sample_world_def)
  have wf: "\<forall>p\<in>set (kd_entries (served_index 0 ?w)). poi_pos p < length (heap ?w)"
    by (auto simp: sample_served_entries h sample_poi_def)
  have "length (matching_pois 0 sample_query ?w) = 100"
    by (simp add: m)
  from search_exactly_cap [OF this] obtain pdp where
    reply: "snd (poi_search 0 sample_query ?w) = Some pdp"
    and len: "length (pois_data pdp) = 100"
    and data: "pois_data pdp
               = map (\<lambda>(a, p). \<lparr>pld_name = poi_name p, pld_pos = Some a, pld_id = poi_id p\<rparr>)
                   (zip [length (heap ?w) ..< length (heap ?w) + 100]
                      (matching_pois 0 sample_query ?w))"
    and copies: "(\<forall>p\<in>set (kd_entries (served_index 0 ?w)). poi_pos p < length (heap ?w)) \<longrightarrow>
                (\<forall>i<100. heap (fst (poi_search 0 sample_query ?w)) ! (length (heap ?w) + i)
                            = heap ?w ! poi_pos (matching_pois 0 sample_query ?w ! i))"
    by blast
  have first: "pois_data pdp ! 0 = \<lparr>pld_name = ''poi'', pld_pos = Some 103, pld_id = 0\<rparr>"
    by (simp add: data m h sample_poi_def)
  have "(0::nat) < 100 \<longrightarrow>
          heap (fst (poi_search 0 sample_query ?w)) ! (length (heap ?w) + 0)
            = heap ?w ! poi_pos (matching_pois 0 sample_query ?w ! 0)"
    using copies wf by blast
  then have "heap (fst (poi_search 0 sample_query ?w)) ! 103 = sample_position"
    by (simp add: m h sample_poi_def)
  with reply len first show ?thesis
    by blast
qed

section \<open>Creation and deletion\<close>

text \<open>
  C4. A creation request whose payload has no position fails with the error
  ``position is missing'' and leaves the whole state as it was: nothing is persisted.
  With a position, the request succeeds and one more document is in the store.
\<close>

theorem create_without_position:
  "(pld_pos pcp = None \<longrightarrow> poi_create now pcp w = (w, Inl position_is_missing))
   \<and> (\<forall>a. pld_pos pcp = Some a \<longrightarrow>
         snd (poi_create now pcp w) = Inr (next_id (stores w ''hx2a''))
         \<and> length (documents (stores (fst (poi_create now pcp w)) ''hx2a''))
             = Suc (length (documents (stores w ''hx2a''))))"
  by (simp add: poi_create_def position_copy_def Let_def)

theorem create_without_position_witness:
  "poi_create 7 (sample_payload None) (sample_world 3 5)
     = (sample_world 3 5, Inl position_is_missing)
   \<and> snd (poi_create 7 (sample_payload (Some 0)) (sample_world 3 5)) = Inr 5
   \<and> length (documents (stores (fst (poi_create 7 (sample_payload (Some 0)) (sample_world 3 5)))
        ''hx2a'')) = 6"
  using create_without_position [of "sample_payload None" 7 "sample_world 3 5"]
    create_without_position [of "sample_payload (Some 0)" 7 "sample_world 3 5"]
  by (simp add: sample_payload_def sample_world_def sample_db_def)

text \<open>
  C5. A deletion request whose identifier names no document of the store fails with
  the error ``document does not exist'' and leaves the whole state as it was. When the
  identifier names a document, the request succeeds and marks that identifier for
  removal.
\<close>

theorem delete_unknown_id:
  "(poi_get (stores w ''hx2a'') q = None \<longrightarrow> poi_delete q w = (w, Inl document_does_not_exist))
   \<and> (\<forall>p. poi_get (stores w ''hx2a'') q = Some p \<longrightarrow>
         snd (poi_delete q w) = Inr ()
         \<and> unpublished (stores (fst (poi_delete q w)) ''hx2a'')
             = q # unpublished (stores w ''hx2a''))"
  by (auto simp: poi_delete_def unpublish_def Let_def dest: poi_get_id)

theorem delete_unknown_id_witness:
  "poi_delete 7 (sample_world 3 5) = (sample_world 3 5, Inl document_does_not_exist)
   \<and> snd (poi_delete 1 (sample_world 3 5)) = Inr ()
   \<and> unpublished (stores (fst (poi_delete 1 (sample_world 3 5))) ''hx2a'') = [1]"
proof -
  have a: "poi_get (stores (sample_world 3 5) ''hx2a'') 7 = None"
    by (simp add: poi_get_def live_documents_def sample_world_def sample_db_def sample_poi_def
        upt_conv_Cons del: upt_Suc)
  have b: "poi_get (stores (sample_world 3 5) ''hx2a'') 1 = Some (sample_poi museum 1)"
    by (simp add: poi_get_def live_documents_def sample_world_def sample_db_def sample_poi_def
        upt_conv_Cons del: upt_Suc)
  have c: "unpublished (stores (sample_world 3 5) ''hx2a'') = []"
    by (simp add: sample_world_def sample_db_def)
  have "poi_delete 7 (sample_world 3 5) = (sample_world 3 5, Inl document_does_not_exist)"
    using delete_unknown_id [of "sample_world 3 5" 7] a by blast
  moreover have "snd (poi_delete 1 (sample_world 3 5)) = Inr ()
      \<and> unpublished (stores (fst (poi_delete 1 (sample_world 3 5))) ''hx2a'')
          = 1 # unpublished (stores (sample_world 3 5) ''hx2a'')"
    using delete_unknown_id [of "sample_world 3 5" 1] b by blast
  ultimately show ?thesis
    by (simp add: c)
qed

section \<open>The index: staleness and construction\<close>

text \<open>
  C6 (amended). A point of interest is created after the index in place was last built
  or refreshed. A search issued before the 10-second window has elapsed does not return
  it. A search issued once the window has elapsed returns it when it matches the
  criteria and at most 100 points of interest of the refreshed snapshot match; with more
  than 100 matches the reply is the zoom-in outcome.
\<close>

theorem staleness_bound:
  assumes step: "index_in_step w idx"
    and after: "kd_refreshed_at idx < tc"
    and created: "poi_create tc pcp w = (w1, Inr i)"
  shows "(ts < kd_refreshed_at idx + 10 \<longrightarrow> \<not> returned i (snd (poi_search ts query w1)))
    \<and> (\<forall>p. kd_refreshed_at idx + 10 \<le> ts \<and> poi_get (stores w1 ''hx2a'') i = Some p
            \<and> query_matches (heap w1) query p
            \<and> length (matching_pois ts query w1) \<le> 100
          \<longrightarrow> returned i (snd (poi_search ts query w1)))
    \<and> (100 < length (matching_pois ts query w1) \<longrightarrow> snd (poi_search ts query w1) = None)"
proof -
  let ?db = "stores w ''hx2a''"
  let ?db1 = "stores w1 ''hx2a''"
  from created obtain a where
    "pld_pos pcp = Some a"
    and i: "i = next_id ?db"
    and static1: "poi_index_static w1 = poi_index_static w"
    and unp: "unpublished ?db1 = unpublished ?db"
    and docs: "documents ?db1 = documents ?db
           @ [(\<lparr>poi_id = i, poi_name = pld_name pcp, poi_pos = length (heap w),
                poi_category = pld_category pcp\<rparr>, tc)]"
    by (rule poi_create_success)
  let ?point = "\<lparr>poi_id = i, poi_name = pld_name pcp, poi_pos = length (heap w),
                 poi_category = pld_category pcp\<rparr>"
  from step have static: "poi_index_static w1 = Some idx"
    and cn: "kd_connector idx = ''hx2a''" and window: "kd_staleness idx = 10"
    and hwm: "kd_hwm idx \<le> kd_refreshed_at idx"
    and old_entries: "\<forall>p\<in>set (kd_entries idx). poi_id p < i"
    and old_docs: "\<forall>d\<in>set (documents ?db). poi_id (fst d) < i"
    and marks: "\<forall>j\<in>set (unpublished ?db). j < i"
    by (simp_all add: index_in_step_def static1 i)
  have served: "served_index ts w1 = kdcache_refresh ts ?db1 idx"
    using static cn by (simp add: served_index_built)
  have live: "live_documents ?db1 = live_documents ?db @ [(?point, tc)]"
    using marks by (auto simp: live_documents_def unp docs)
  have old_live: "\<forall>d\<in>set (live_documents ?db). poi_id (fst d) < i"
    using old_docs by (simp add: live_documents_def)
  have before: "\<not> returned i (snd (poi_search ts query w1))" if "ts < kd_refreshed_at idx + 10"
  proof -
    from that have "served_index ts w1 = idx"
      by (simp add: served kdcache_refresh_def kdcache_fresh_def window)
    then have "set (matching_pois ts query w1) \<subseteq> set (kd_entries idx)"
      by (auto simp: matching_pois_def)
    with old_entries have "i \<notin> poi_id ` set (matching_pois ts query w1)"
      by fastforce
    then show ?thesis by (simp add: returned_iff)
  qed
  have found: "p = ?point" if "poi_get ?db1 i = Some p" for p
  proof -
    have "find (\<lambda>d. poi_id (fst d) = i) (live_documents ?db) = None"
      using old_live by (auto simp: find_None_iff)
    then have "find (\<lambda>d. poi_id (fst d) = i) (live_documents ?db1) = Some (?point, tc)"
      by (simp add: live find_app)
    with that show ?thesis by (simp add: poi_get_def)
  qed
  have afterwards: "returned i (snd (poi_search ts query w1))"
    if "kd_refreshed_at idx + 10 \<le> ts" "poi_get ?db1 i = Some p"
       "query_matches (heap w1) query p" "length (matching_pois ts query w1) \<le> 100" for p
  proof -
    have p: "p = ?point" using that(2) by (rule found)
    have "(?point, tc) \<in> set (filter (\<lambda>d. kd_hwm idx < snd d) (live_documents ?db1))"
      using hwm after by (simp add: live)
    then have "?point \<in> set (kd_entries (served_index ts w1))"
      using that(1)
      by (auto simp: served kdcache_refresh_def kdcache_fresh_def window Let_def
          simp del: set_filter filter_append intro!: image_eqI [where x = "(?point, tc)"])
    with that(3) have "?point \<in> set (matching_pois ts query w1)"
      by (simp add: matching_pois_def p)
    then have "i \<in> poi_id ` set (matching_pois ts query w1)"
      by force
    with that(4) show ?thesis by (simp add: returned_iff)
  qed
  have overflow: "100 < length (matching_pois ts query w1) \<longrightarrow>
                    snd (poi_search ts query w1) = None"
    by (simp add: poi_search_reply search_limit_def)
  from before afterwards overflow show ?thesis by blast
qed

theorem staleness_bound_witness:
  "\<not> returned 3
       (snd (poi_search 5 sample_query
              (fst (poi_create 1 (sample_payload (Some 0)) (built_world 3 3)))))
   \<and> returned 3
       (snd (poi_search 20 sample_query
              (fst (poi_create 1 (sample_payload (Some 0)) (built_world 3 3)))))"
proof -
  let ?w1 = "fst (poi_create 1 (sample_payload (Some 0)) (built_world 3 3))"
  have created: "poi_create 1 (sample_payload (Some 0)) (built_world 3 3) = (?w1, Inr 3)"
    by (simp add: sample_create)
  have after: "kd_refreshed_at (sample_index 3 3) < 1"
    by (simp add: sample_index_fields)
  have "index_in_step (built_world 3 3) (sample_index 3 3)"
    by (simp add: built_world_in_step)
  note t = staleness_bound [OF this after created]
  have early: "(5::nat) < kd_refreshed_at (sample_index 3 3) + 10"
    by (simp add: sample_index_fields)
  have late: "kd_refreshed_at (sample_index 3 3) + 10 \<le> (20::nat)"
    by (simp add: sample_index_fields)
  have get: "poi_get (stores ?w1 ''hx2a'') 3 = Some (sample_poi museum 3)"
    by (simp add: sample_created_get)
  have m: "query_matches (heap ?w1) sample_query (sample_poi museum 3)"
    by (simp add: sample_created_fields sample_query_matches del: replicate_Suc)
  have few: "length (matching_pois 20 sample_query ?w1) \<le> 100"
    by (simp add: sample_created_matching)
  have "\<not> returned 3 (snd (poi_search 5 sample_query ?w1))"
    using t [of 5 sample_query] early by blast
  moreover have "returned 3 (snd (poi_search 20 sample_query ?w1))"
    using t [of 20 sample_query] late get m few by blast
  ultimately show ?thesis by blast
qed

text \<open>
  The index holds 100 museums and a museum is created one second after it was built:
  the search issued after the window finds 101 matches, and its reply is the zoom-in
  outcome, without the new point of interest.
\<close>

theorem staleness_bound_counterexample:
  "poi_index_static (built_world 100 100) = Some (sample_index 100 100)
   \<and> kd_refreshed_at (sample_index 100 100) < 1
   \<and> snd (poi_create 1 (sample_payload (Some 0)) (built_world 100 100)) = Inr 100
   \<and> kd_refreshed_at (sample_index 100 100) + 10 \<le> 20
   \<and> poi_get (stores (fst (poi_create 1 (sample_payload (Some 0)) (built_world 100 100)))
        ''hx2a'') 100 = Some (sample_poi museum 100)
   \<and> query_matches (heap (fst (poi_create 1 (sample_payload (Some 0)) (built_world 100 100))))
        sample_query (sample_poi museum 100)
   \<and> \<not> returned 100
        (snd (poi_search 20 sample_query
               (fst (poi_create 1 (sample_payload (Some 0)) (built_world 100 100)))))"
proof -
  let ?w1 = "fst (poi_create 1 (sample_payload (Some 0)) (built_world 100 100))"
  have "query_matches (heap ?w1) sample_query (sample_poi museum 100)"
    by (simp add: sample_created_fields sample_query_matches del: replicate_Suc)
  moreover have "\<not> returned 100 (snd (poi_search 20 sample_query ?w1))"
    by (simp add: returned_iff sample_created_matching)
  ultimately show ?thesis
    by (simp add: built_world_fields sample_index_fields sample_created_fields sample_created_get)
qed

text \<open>
  C7 (amended). There is one index instance for the whole process. The first call of
  \<^verbatim>\<open>get_poi_index\<close> constructs it, from the connector it is given; every call after it,
  whatever connector it is given, returns that same instance, which stays bound to the
  connector of the first call, and constructs nothing: in a run of calls the constructor
  runs exactly once.
\<close>

theorem index_constructed_once:
  "(poi_index_static w = None \<longrightarrow>
      fst (acquire_all ((now, cn) # cs) w)
        = replicate (Suc (length cs))
            (kdcache_construct ''poi kdcache'' cn index_by_last_save_timestamp 128 10 now
               (stores w cn))
      \<and> (\<forall>c\<in>set (fst (acquire_all ((now, cn) # cs) w)). kd_connector c = cn)
      \<and> constructions ((now, cn) # cs) w = 1)
   \<and> (\<forall>c. poi_index_static w = Some c \<longrightarrow>
         get_poi_index now cn w = (c, w) \<and> constructions ((now, cn) # cs) w = 0)"
proof -
  let ?c = "kdcache_construct ''poi kdcache'' cn index_by_last_save_timestamp 128 10 now
              (stores w cn)"
  have first: "get_poi_index now cn w = (?c, w\<lparr>poi_index_static := Some ?c\<rparr>)"
    if "poi_index_static w = None"
    using that by (simp add: get_poi_index_def Let_def)
  have rest: "acquire_all cs (w\<lparr>poi_index_static := Some ?c\<rparr>)
                = (replicate (length cs) ?c, w\<lparr>poi_index_static := Some ?c\<rparr>)
              \<and> constructions cs (w\<lparr>poi_index_static := Some ?c\<rparr>) = 0"
    by (rule acquire_all_built) simp
  have a: "fst (acquire_all ((now, cn) # cs) w) = replicate (Suc (length cs)) ?c
           \<and> (\<forall>c\<in>set (fst (acquire_all ((now, cn) # cs) w)). kd_connector c = cn)
           \<and> constructions ((now, cn) # cs) w = 1"
    if "poi_index_static w = None"
  proof -
    have "kd_connector ?c = cn"
      by (simp add: kdcache_construct_def)
    then show ?thesis
      using that rest by (simp add: first)
  qed
  have b: "get_poi_index now cn w = (c, w) \<and> constructions ((now, cn) # cs) w = 0"
    if "poi_index_static w = Some c" for c
    using that acquire_all_built [of w c cs] by (simp add: get_poi_index_def)
  from a b show ?thesis by blast
qed

theorem index_constructed_once_witness:
  "fst (acquire_all [(0, ''hx2a''), (5, ''other''), (60, ''hx2a'')] (sample_world 3 5))
     = [kdcache_construct ''poi kdcache'' ''hx2a'' index_by_last_save_timestamp 128 10 0
          (sample_db 3 5),
        kdcache_construct ''poi kdcache'' ''hx2a'' index_by_last_save_timestamp 128 10 0
          (sample_db 3 5),
        kdcache_construct ''poi kdcache'' ''hx2a'' index_by_last_save_timestamp 128 10 0
          (sample_db 3 5)]
   \<and> constructions [(0, ''hx2a''), (5, ''other''), (60, ''hx2a'')] (sample_world 3 5) = 1
   \<and> constructions [(5, ''other''), (60, ''hx2a'')]
        (snd (get_poi_index 0 ''hx2a'' (sample_world 3 5))) = 0"
proof -
  let ?c = "kdcache_construct ''poi kdcache'' ''hx2a'' index_by_last_save_timestamp 128 10 0
              (sample_db 3 5)"
  have n: "poi_index_static (sample_world 3 5) = None"
    by (simp add: sample_world_def)
  have s: "stores (sample_world 3 5) ''hx2a'' = sample_db 3 5"
    by (simp add: sample_world_def)
  have b: "poi_index_static (snd (get_poi_index 0 ''hx2a'' (sample_world 3 5))) = Some ?c"
    by (simp add: get_poi_index_def n s Let_def)
  let ?w1 = "snd (get_poi_index 0 ''hx2a'' (sample_world 3 5))"
  have "fst (acquire_all [(0, ''hx2a''), (5, ''other''), (60, ''hx2a'')] (sample_world 3 5))
          = replicate (Suc (length [(5::nat, ''other''), (60, ''hx2a'')]))
              (kdcache_construct ''poi kdcache'' ''hx2a'' index_by_last_save_timestamp 128 10 0
                 (stores (sample_world 3 5) ''hx2a''))
        \<and> constructions [(0, ''hx2a''), (5, ''other''), (60, ''hx2a'')] (sample_world 3 5) = 1"
    using index_constructed_once [of "sample_world 3 5" 0 "''hx2a''"
        "[(5, ''other''), (60, ''hx2a'')]"] n
    by blast
  moreover have "constructions [(5, ''other''), (60, ''hx2a'')] ?w1 = 0"
    using index_constructed_once [of ?w1 5 "''other''" "[(60, ''hx2a'')]"] b
    by blast
  ultimately show ?thesis
    by (simp add: s)
qed

text \<open>
  The index is first acquired for \<open>hx2a\<close>. A later call for another logical database
  gets the index bound to \<open>hx2a\<close>, with the five points of interest of \<open>hx2a\<close>, although
  that other database is empty.
\<close>

theorem index_constructed_once_counterexample:
  "kd_connector (fst (get_poi_index 5 ''other'' (snd (get_poi_index 0 ''hx2a'' two_store_world))))
     \<noteq> ''other''
   \<and> length (kd_entries
        (fst (get_poi_index 5 ''other'' (snd (get_poi_index 0 ''hx2a'' two_store_world))))) = 5
   \<and> live_documents (stores (snd (get_poi_index 0 ''hx2a'' two_store_world)) ''other'') = []"
  by (simp add: get_poi_index_def two_store_world_def Let_def kdcache_construct_def
      live_documents_def sample_db_def)

section \<open>Summaries, categories and the size of a reply\<close>

text \<open>
  C8. Every summary of a reply owns a position object of its own: a new object, at an
  address no point of interest of the snapshot holds, with the latitude and longitude
  of the position of the point of interest it summarises. The search leaves the
  existing position objects as they were, and writing to the position of a summary
  changes the coordinates of no point of interest of the snapshot.
\<close>

theorem search_summaries_are_copies:
  assumes wf: "\<forall>p\<in>set (kd_entries (served_index now w)). poi_pos p < length (heap w)"
    and reply: "snd (poi_search now query w) = Some pdp"
  shows "length (pois_data pdp) = length (matching_pois now query w)
    \<and> (\<forall>i<length (matching_pois now query w).
          pld_pos (pois_data pdp ! i) = Some (length (heap w) + i)
          \<and> heap (fst (poi_search now query w)) ! (length (heap w) + i)
              = heap w ! poi_pos (matching_pois now query w ! i))
    \<and> (\<forall>a<length (heap w). heap (fst (poi_search now query w)) ! a = heap w ! a)
    \<and> (\<forall>pd\<in>set (pois_data pdp). \<forall>q\<in>set (kd_entries (served_index now w)).
          pld_pos pd \<noteq> Some (poi_pos q))
    \<and> (\<forall>pd\<in>set (pois_data pdp). \<forall>q\<in>set (kd_entries (served_index now w)). \<forall>a v.
          pld_pos pd = Some a \<longrightarrow>
            get_latitude ((heap (fst (poi_search now query w)))[a := v]) q
              = get_latitude (heap w) q
            \<and> get_longitude ((heap (fst (poi_search now query w)))[a := v]) q
              = get_longitude (heap w) q)"
proof -
  let ?m = "matching_pois now query w"
  let ?h = "heap w"
  let ?h' = "heap (fst (poi_search now query w))"
  let ?r = "push_all ?m ?h make_pois_search_data_payload"
  have small: "\<not> search_limit \<le> length ?m"
    using reply by (simp add: poi_search_reply split: if_splits)
  then have pdp: "pdp = snd ?r"
    using reply by (simp add: poi_search_reply)
  have sub: "set ?m \<subseteq> set (kd_entries (served_index now w))"
    by (auto simp: matching_pois_def)
  with wf have wfm: "\<forall>p\<in>set ?m. poi_pos p < length ?h"
    by blast
  have h': "?h' = ?h @ map (\<lambda>p. ?h ! poi_pos p) ?m"
    using small by (simp add: poi_search_world push_all_heap [OF wfm])
  have len: "length (pois_data pdp) = length ?m"
    by (simp add: pdp push_all_length make_pois_search_data_payload_def)
  have pos: "map pld_pos (pois_data pdp) = map Some [length ?h ..< length ?h + length ?m]"
    by (simp add: pdp push_all_pos make_pois_search_data_payload_def)
  have posi: "pld_pos (pois_data pdp ! i) = Some (length ?h + i)" if "i < length ?m" for i
  proof -
    have "map pld_pos (pois_data pdp) ! i = map Some [length ?h ..< length ?h + length ?m] ! i"
      by (simp only: pos)
    with that len show ?thesis by simp
  qed
  have copy: "?h' ! (length ?h + i) = ?h ! poi_pos (?m ! i)" if "i < length ?m" for i
    using that by (simp add: h' nth_append)
  have old: "?h' ! a = ?h ! a" if "a < length ?h" for a
    using that by (simp add: h' nth_append)
  have fresh: "length ?h \<le> a" if "pd \<in> set (pois_data pdp)" "pld_pos pd = Some a" for pd a
  proof -
    from that(1) have "pld_pos pd \<in> set (map pld_pos (pois_data pdp))" by simp
    with that(2) show ?thesis by (auto simp: pos)
  qed
  have share: "pld_pos pd \<noteq> Some (poi_pos q)"
    if "pd \<in> set (pois_data pdp)" "q \<in> set (kd_entries (served_index now w))" for pd q
    using fresh [OF that(1)] wf that(2) by fastforce
  have frame: "get_latitude (?h'[a := v]) q = get_latitude ?h q
               \<and> get_longitude (?h'[a := v]) q = get_longitude ?h q"
    if "pd \<in> set (pois_data pdp)" "q \<in> set (kd_entries (served_index now w))"
       "pld_pos pd = Some a" for pd q a v
  proof -
    have "poi_pos q < length ?h" using wf that(2) by blast
    moreover have "length ?h \<le> a" using fresh [OF that(1,3)] .
    ultimately show ?thesis
      by (simp add: get_latitude_def get_longitude_def old)
  qed
  from len posi copy old share frame show ?thesis by blast
qed

theorem search_summaries_are_copies_witness:
  "\<exists>pdp. snd (poi_search 0 sample_query (sample_world 3 5)) = Some pdp
     \<and> length (pois_data pdp) = 3
     \<and> pld_pos (pois_data pdp ! 0) = Some 5
     \<and> heap (fst (poi_search 0 sample_query (sample_world 3 5))) ! 5 = sample_position
     \<and> heap (fst (poi_search 0 sample_query (sample_world 3 5))) ! 0 = sample_position"
proof -
  let ?w = "sample_world 3 5"
  have m: "matching_pois 0 sample_query ?w = map (sample_poi museum) [0..<3]"
    by (simp add: sample_matching)
  obtain pdp where reply: "snd (poi_search 0 sample_query ?w) = Some pdp"
    by (simp add: poi_search_reply m search_limit_def)
  have wf: "\<forall>p\<in>set (kd_entries (served_index 0 ?w)). poi_pos p < length (heap ?w)"
  proof -
    have "length (heap ?w) = 5" by (simp add: sample_world_def)
    then show ?thesis by (auto simp: sample_served_entries sample_poi_def)
  qed
  have h: "heap ?w = replicate 5 sample_position"
    by (simp add: sample_world_def)
  have m0: "poi_pos (matching_pois 0 sample_query ?w ! 0) = 0"
    by (simp add: m sample_poi_def upt_conv_Cons del: upt_Suc)
  let ?h' = "heap (fst (poi_search 0 sample_query ?w))"
  note t = search_summaries_are_copies [OF wf reply]
  have len: "length (pois_data pdp) = length (matching_pois 0 sample_query ?w)"
    using t by blast
  have c0: "0 < length (matching_pois 0 sample_query ?w) \<longrightarrow>
      pld_pos (pois_data pdp ! 0) = Some (length (heap ?w) + 0)
      \<and> ?h' ! (length (heap ?w) + 0) = heap ?w ! poi_pos (matching_pois 0 sample_query ?w ! 0)"
    using t by blast
  have o0: "0 < length (heap ?w) \<longrightarrow> ?h' ! 0 = heap ?w ! 0"
    using t by blast
  have "length (pois_data pdp) = 3"
    using len by (simp add: m)
  moreover have "pld_pos (pois_data pdp ! 0) = Some 5 \<and> ?h' ! 5 = sample_position"
    using c0 m0 by (simp add: m h)
  moreover have "?h' ! 0 = sample_position"
    using o0 by (simp add: h)
  ultimately show ?thesis
    using reply by simp
qed

text \<open>
  C9 (amended). Two points of interest of the snapshot are at the same coordinates and
  have different categories; the rectangle of a search contains the coordinates and its
  category is that of the first. The search never returns the second. It returns the
  first when at most 100 points of interest match; with more than 100 matches the reply
  is the zoom-in outcome, with neither of the two.
\<close>

theorem category_isolation:
  assumes "p1 \<in> set (kd_entries (served_index now w))"
    and "p2 \<in> set (kd_entries (served_index now w))"
    and "distinct (map poi_id (kd_entries (served_index now w)))"
    and "get_latitude (heap w) p1 = get_latitude (heap w) p2"
    and "get_longitude (heap w) p1 = get_longitude (heap w) p2"
    and "get_category p1 \<noteq> get_category p2"
    and "contains (get_latitude_interval query) (get_latitude (heap w) p1)"
    and "contains (get_longitude_interval query) (get_longitude (heap w) p1)"
    and "category query = get_category p1"
  shows "\<not> returned (poi_id p2) (snd (poi_search now query w))
    \<and> (length (matching_pois now query w) \<le> 100 \<longrightarrow>
         returned (poi_id p1) (snd (poi_search now query w)))
    \<and> (100 < length (matching_pois now query w) \<longrightarrow> snd (poi_search now query w) = None)"
proof -
  let ?es = "kd_entries (served_index now w)"
  let ?m = "matching_pois now query w"
  have m1: "p1 \<in> set ?m"
    using assms(1,7,8,9)
    by (simp add: matching_pois_def query_matches_def kdcache_matches_def contains_singleton)
  have "\<not> query_matches (heap w) query p2"
    using assms(6,9) query_matches_category [of "heap w" query p2]
    by (auto simp: get_category_def)
  then have m2: "p2 \<notin> set ?m"
    by (simp add: matching_pois_def)
  have inj: "inj_on poi_id (set ?es)"
    using assms(3) by (simp add: distinct_map)
  have "poi_id p2 \<notin> poi_id ` set ?m"
  proof
    assume "poi_id p2 \<in> poi_id ` set ?m"
    then obtain q where q: "q \<in> set ?m" "poi_id q = poi_id p2" by auto
    then have "q \<in> set ?es" by (simp add: matching_pois_def)
    with inj assms(2) q(2) have "q = p2" by (auto dest: inj_onD)
    with q(1) m2 show False by simp
  qed
  moreover have "100 < length ?m \<longrightarrow> snd (poi_search now query w) = None"
    by (simp add: poi_search_reply search_limit_def)
  ultimately show ?thesis
    using m1 by (simp add: returned_iff)
qed

theorem category_isolation_witness:
  "\<not> returned (poi_id (sample_poi restaurant 4)) (snd (poi_search 0 sample_query (sample_world 3 5)))
   \<and> returned (poi_id (sample_poi museum 0)) (snd (poi_search 0 sample_query (sample_world 3 5)))"
proof -
  have "sample_poi museum 0 \<in> set (kd_entries (served_index 0 (sample_world 3 5)))"
    by (simp add: sample_served_entries)
  moreover have "sample_poi restaurant 4 \<in> set (kd_entries (served_index 0 (sample_world 3 5)))"
    by (simp add: sample_served_entries)
  moreover have "distinct (map poi_id (kd_entries (served_index 0 (sample_world 3 5))))"
    by (simp add: sample_ids)
  moreover have "contains (get_latitude_interval sample_query)
                   (get_latitude (heap (sample_world 3 5)) (sample_poi museum 0))"
    by (simp add: sample_coordinates contains_def get_latitude_interval_def sample_query_def)
  moreover have "contains (get_longitude_interval sample_query)
                   (get_longitude (heap (sample_world 3 5)) (sample_poi museum 0))"
    by (simp add: sample_coordinates contains_def get_longitude_interval_def sample_query_def)
  moreover have "get_latitude (heap (sample_world 3 5)) (sample_poi museum 0)
                   = get_latitude (heap (sample_world 3 5)) (sample_poi restaurant 4)"
    by (simp add: sample_coordinates)
  moreover have "get_longitude (heap (sample_world 3 5)) (sample_poi museum 0)
                   = get_longitude (heap (sample_world 3 5)) (sample_poi restaurant 4)"
    by (simp add: sample_coordinates)
  moreover have "get_category (sample_poi museum 0) \<noteq> get_category (sample_poi restaurant 4)"
    by (simp add: get_category_def sample_poi_def)
  moreover have "category sample_query = get_category (sample_poi museum 0)"
    by (simp add: get_category_def sample_poi_def sample_query_def)
  moreover have "length (matching_pois 0 sample_query (sample_world 3 5)) \<le> 100"
    by (simp add: sample_matching)
  ultimately show ?thesis
    using category_isolation [of "sample_poi museum 0" 0 "sample_world 3 5"
        "sample_poi restaurant 4" sample_query]
    by blast
qed

text \<open>
  With 101 museums and one restaurant at the same coordinates, the search for museums
  replies with the zoom-in outcome: the museum is not returned.
\<close>

theorem category_isolation_counterexample:
  "sample_poi museum 0 \<in> set (kd_entries (served_index 0 (sample_world 101 102)))
   \<and> sample_poi restaurant 101 \<in> set (kd_entries (served_index 0 (sample_world 101 102)))
   \<and> get_latitude (heap (sample_world 101 102)) (sample_poi museum 0)
       = get_latitude (heap (sample_world 101 102)) (sample_poi restaurant 101)
   \<and> get_longitude (heap (sample_world 101 102)) (sample_poi museum 0)
       = get_longitude (heap (sample_world 101 102)) (sample_poi restaurant 101)
   \<and> get_category (sample_poi museum 0) \<noteq> get_category (sample_poi restaurant 101)
   \<and> query_matches (heap (sample_world 101 102)) sample_query (sample_poi museum 0)
   \<and> \<not> returned (poi_id (sample_poi museum 0))
         (snd (poi_search 0 sample_query (sample_world 101 102)))"
proof -
  have "sample_poi museum 0 \<in> set (kd_entries (served_index 0 (sample_world 101 102)))"
    by (simp add: sample_served_entries)
  moreover have "sample_poi restaurant 101 \<in> set (kd_entries (served_index 0 (sample_world 101 102)))"
    by (simp add: sample_served_entries)
  moreover have "query_matches (heap (sample_world 101 102)) sample_query (sample_poi museum 0)"
    using sample_query_matches [of 0 102 museum] by (simp add: sample_world_def)
  moreover have "\<not> returned (poi_id (sample_poi museum 0))
         (snd (poi_search 0 sample_query (sample_world 101 102)))"
    by (simp add: returned_iff sample_matching)
  moreover have "get_category (sample_poi museum 0) \<noteq> get_category (sample_poi restaurant 101)"
    by (simp add: get_category_def sample_poi_def)
  ultimately show ?thesis
    by (simp add: sample_coordinates)
qed

text \<open>
  C10. The index writes at most 101 hits to the array; 101 hits give the zoom-in
  outcome; so a reply that carries a list carries at most 100 summaries.
\<close>

theorem search_reply_bounded:
  "length (fst (poi_search_hits now query w)) \<le> 101
   \<and> (length (fst (poi_search_hits now query w)) = 101 \<longrightarrow> snd (poi_search now query w) = None)
   \<and> (\<forall>pdp. snd (poi_search now query w) = Some pdp \<longrightarrow> length (pois_data pdp) \<le> 100)"
proof -
  let ?m = "matching_pois now query w"
  have a: "length (take search_limit ?m) \<le> 101"
    by (simp add: search_limit_def)
  have b: "length (take search_limit ?m) = 101 \<longrightarrow> snd (poi_search now query w) = None"
    by (simp add: poi_search_reply search_limit_def)
  have c: "length (pois_data pdp) \<le> 100" if "snd (poi_search now query w) = Some pdp" for pdp
  proof -
    from that have small: "length ?m < search_limit"
      by (simp add: poi_search_reply split: if_splits)
    with that have "length (pois_data pdp) = length ?m"
      by (auto simp: poi_search_reply push_all_length make_pois_search_data_payload_def)
    with small show ?thesis by (simp add: search_limit_def)
  qed
  from a b c show ?thesis by (simp add: poi_search_hits_eq)
qed

theorem search_reply_bounded_witness:
  "length (fst (poi_search_hits 0 sample_query (sample_world 101 101))) = 101
   \<and> snd (poi_search 0 sample_query (sample_world 101 101)) = None
   \<and> (\<exists>pdp. snd (poi_search 0 sample_query (sample_world 3 5)) = Some pdp
           \<and> length (pois_data pdp) \<le> 100)"
proof -
  have "length (fst (poi_search_hits 0 sample_query (sample_world 101 101))) = 101"
    by (simp add: poi_search_hits_eq sample_matching search_limit_def)
  moreover have "\<exists>pdp. snd (poi_search 0 sample_query (sample_world 3 5)) = Some pdp"
    by (simp add: poi_search_reply sample_matching search_limit_def)
  ultimately show ?thesis
    using search_reply_bounded [of 0 sample_query "sample_world 101 101"]
      search_reply_bounded [of 0 sample_query "sample_world 3 5"]
    by auto
qed

end
